theory Spec2Isabelle
  imports Main "HOL-Library.Sublist"
begin

section \<open>Go values and the standard-library functions the program calls\<close>

text \<open>
  A Go \<open>string\<close> is a sequence of bytes, here a \<open>string\<close> (a list of 8-bit characters).
  A Go \<open>error\<close> built by \<open>errors.New\<close> carries its message; an \<open>error\<close> result that may
  be \<open>nil\<close> is an \<open>error option\<close>.
\<close>

datatype error = errors_New (Error: string)

text \<open>\<open>fmt.Sprint(err)\<close> of one error operand is its message.\<close>

definition fmt_Sprint :: "error \<Rightarrow> string" where
  "fmt_Sprint err = Error err"

text \<open>
  \<open>fmt.Println(a, b, ...)\<close> writes the operands separated by one space, then a newline.
\<close>

fun join_space :: "string list \<Rightarrow> string" where
  "join_space [] = []"
| "join_space [a] = a"
| "join_space (a # b # bs) = a @ '' '' @ join_space (b # bs)"

definition fmt_Sprintln :: "string list \<Rightarrow> string" where
  "fmt_Sprintln operands = join_space operands @ [CHR 0x0A]"

text \<open>\<open>strings.HasPrefix(s, prefix)\<close>.\<close>

definition strings_HasPrefix :: "string \<Rightarrow> string \<Rightarrow> bool" where
  "strings_HasPrefix s p = prefix p s"

text \<open>
  \<open>strings.TrimSpace(s)\<close> removes the leading and the trailing white space, as Unicode
  defines it, from the UTF-8 string \<open>s\<close>. The white-space code points are U+0009..U+000D,
  U+0020, U+0085, U+00A0, U+1680, U+2000..U+200A, U+2028, U+2029, U+202F, U+205F and
  U+3000; \<open>spaceRunes\<close> lists their UTF-8 encodings. A rune is decoded as one of them
  exactly when the bytes at that place are its encoding, at the front as at the back
  (the backward decoder stops at the first lead byte it meets).
\<close>

definition spaceRunes :: "string list" where
  "spaceRunes =
    [[CHR 0x09], [CHR 0x0A], [CHR 0x0B], [CHR 0x0C], [CHR 0x0D], [CHR 0x20],
     [CHR 0xC2, CHR 0x85], [CHR 0xC2, CHR 0xA0],
     [CHR 0xE1, CHR 0x9A, CHR 0x80],
     [CHR 0xE2, CHR 0x80, CHR 0x80], [CHR 0xE2, CHR 0x80, CHR 0x81],
     [CHR 0xE2, CHR 0x80, CHR 0x82], [CHR 0xE2, CHR 0x80, CHR 0x83],
     [CHR 0xE2, CHR 0x80, CHR 0x84], [CHR 0xE2, CHR 0x80, CHR 0x85],
     [CHR 0xE2, CHR 0x80, CHR 0x86], [CHR 0xE2, CHR 0x80, CHR 0x87],
     [CHR 0xE2, CHR 0x80, CHR 0x88], [CHR 0xE2, CHR 0x80, CHR 0x89],
     [CHR 0xE2, CHR 0x80, CHR 0x8A],
     [CHR 0xE2, CHR 0x80, CHR 0xA8], [CHR 0xE2, CHR 0x80, CHR 0xA9],
     [CHR 0xE2, CHR 0x80, CHR 0xAF],
     [CHR 0xE2, CHR 0x81, CHR 0x9F],
     [CHR 0xE3, CHR 0x80, CHR 0x80]]"

fun trimLeading :: "string list \<Rightarrow> string \<Rightarrow> string" where
  "trimLeading runes [] = []"
| "trimLeading runes (c # cs) =
     (case find (\<lambda>r. r \<noteq> [] \<and> prefix r (c # cs)) runes of
        None \<Rightarrow> c # cs
      | Some r \<Rightarrow> trimLeading runes (drop (length r - 1) cs))"

definition strings_TrimSpace :: "string \<Rightarrow> string" where
  "strings_TrimSpace s =
     rev (trimLeading (map rev spaceRunes) (rev (trimLeading spaceRunes s)))"

text \<open>
  \<open>strings.Replace(s, old, new, n)\<close> for a non-empty \<open>old\<close>: the first \<open>n\<close>
  non-overlapping occurrences of \<open>old\<close>, from the left, become \<open>new\<close>; a negative \<open>n\<close>
  sets no limit. (The program's only call has \<open>old = ".gifv"\<close>; an empty \<open>old\<close>, which
  Go matches between runes, is outside this model and leaves \<open>s\<close> as it is.)
\<close>

fun strings_Replace :: "string \<Rightarrow> string \<Rightarrow> string \<Rightarrow> int \<Rightarrow> string" where
  "strings_Replace [] old new n = []"
| "strings_Replace (c # cs) old new n =
     (if n \<noteq> 0 \<and> old \<noteq> [] \<and> prefix old (c # cs)
      then new @ strings_Replace (drop (length old - 1) cs) old new (n - 1)
      else c # strings_Replace cs old new n)"

text \<open>
  \<open>path.Ext(path)\<close>: the loop runs \<open>i\<close> from \<open>len(path) - 1\<close> down to \<open>0\<close> while
  \<open>path[i]\<close> is not a slash, and returns \<open>path[i:]\<close> at the first dot; otherwise the
  empty string. \<open>Ext_loop (Suc i) p\<close> is the loop at index \<open>i\<close>.
\<close>

fun Ext_loop :: "nat \<Rightarrow> string \<Rightarrow> string" where
  "Ext_loop 0 p = []"
| "Ext_loop (Suc i) p =
     (if p ! i = CHR ''/'' then []
      else if p ! i = CHR ''.'' then drop i p
      else Ext_loop i p)"

definition path_Ext :: "string \<Rightarrow> string" where
  "path_Ext p = Ext_loop (length p) p"

section \<open>The program's data\<close>

record converter =
  keepFiles :: bool
  outputMarkdown :: bool
  imageWidth :: string
  clientID :: string
  startImage :: string
  fileToConvert :: string
  outputImage :: string
  endImage :: string

record imgurData =
  Link :: string
  Err :: string

record imgurResponse =
  Success :: bool
  Data :: imgurData

definition tempFileName :: string where
  "tempFileName = ''temp_file_to_convert''"

definition outputFileName :: string where
  "outputFileName = ''output''"

definition imgurAPIEndpoint :: string where
  "imgurAPIEndpoint = ''https://api.imgur.com/3/image''"

section \<open>The outside world\<close>

text \<open>
  Of a parsed URL the program reads the field \<open>Path\<close> only. A request body is absent
  (\<open>nil\<close>) or the multipart form the program wrote, given by its file parts (field name and
  file name; the bytes of the file are not modelled). A response is its body.
\<close>

record URL =
  Path :: string

datatype body = NoBody | MultipartForm "(string \<times> string) list"

record request =
  Method :: string
  RawURL :: string
  Header :: "(string \<times> string) list"
  ReqBody :: body

record response =
  Body :: string

text \<open>
  The two ends of \<open>io.Copy\<close>: a file (the path it was opened or created with, \<open>None\<close>
  for the nil file that a failed \<open>os.Create\<close> leaves), a response body, or the file part
  of the multipart form.
\<close>

datatype stream =
    FileStream "string option"
  | BodyStream response
  | FormFileStream string string

text \<open>
  What the program does to the outside world, in the order it does it: text written
  to standard output, file-system calls, HTTP round trips, copies and external processes.
  The deferred \<open>Close\<close> calls on the files and on the response body, and what the
  runtime writes to standard error when it panics, are not recorded.
\<close>

datatype event =
    Stdout string
  | OsStat string
  | OsCreate string
  | OsOpen string
  | OsRemove string
  | ClientDo request
  | IoCopy stream stream
  | CmdRun string "string list"

text \<open>
  The answers of the outside world, one field for each library call whose result the
  program cannot compute: they are parameters of every function below, and the theorems
  hold for all of them.
  \<^item> \<open>os_Getenv\<close>: the environment;
  \<^item> \<open>url_Parse\<close>: \<open>url.Parse\<close>;
  \<^item> \<open>os_Stat_IsNotExist p\<close>: \<open>os.IsNotExist(err)\<close> for the error of \<open>os.Stat(p)\<close>;
  \<^item> \<open>os_Create\<close>, \<open>os_Open\<close>, \<open>os_Remove\<close>: the error of the call, if any;
  \<^item> \<open>client_Do\<close>: the HTTP round trip (with its 10 second timeout);
  \<^item> \<open>io_Copy dst src\<close>: the error of \<open>io.Copy\<close>, if any;
  \<^item> \<open>cmd_Run name args\<close>: the error of \<open>exec.Command(name, args...).Run()\<close>, if any (a
    non-zero exit is one), and the standard error stream it captured;
  \<^item> \<open>multipart_CreateFormFile\<close>: the error of the call, if any;
  \<^item> \<open>multipart_Boundary\<close>: the boundary the multipart writer chose;
  \<^item> \<open>json_Decode\<close>: decoding a response body into an \<open>imgurResponse\<close>.
\<close>

record world =
  os_Getenv :: "string \<Rightarrow> string"
  url_Parse :: "string \<Rightarrow> error + URL"
  os_Stat_IsNotExist :: "string \<Rightarrow> bool"
  os_Create :: "string \<Rightarrow> error option"
  os_Open :: "string \<Rightarrow> error option"
  os_Remove :: "string \<Rightarrow> error option"
  client_Do :: "request \<Rightarrow> error + response"
  io_Copy :: "stream \<Rightarrow> stream \<Rightarrow> error option"
  cmd_Run :: "string \<Rightarrow> string list \<Rightarrow> error option \<times> string"
  multipart_CreateFormFile :: "string \<Rightarrow> string \<Rightarrow> error option"
  multipart_Boundary :: string
  json_Decode :: "string \<Rightarrow> error + imgurResponse"

text \<open>
  \<open>http.NewRequest(method, url, body)\<close> with a valid method fails exactly when
  \<open>url.Parse(url)\<close> does, with that error.
\<close>

definition http_NewRequest :: "world \<Rightarrow> string \<Rightarrow> string \<Rightarrow> body \<Rightarrow> error + request" where
  "http_NewRequest w method u b =
     (case url_Parse w u of
        Inl err \<Rightarrow> Inl err
      | Inr _ \<Rightarrow> Inr \<lparr>Method = method, RawURL = u, Header = [], ReqBody = b\<rparr>)"

text \<open>\<open>req.Header.Set(key, value)\<close> replaces the values of \<open>key\<close>.\<close>

definition Header_Set :: "string \<Rightarrow> string \<Rightarrow> request \<Rightarrow> request" where
  "Header_Set k v req = req\<lparr>Header := filter (\<lambda>kv. fst kv \<noteq> k) (Header req) @ [(k, v)]\<rparr>"

text \<open>\<open>w.FormDataContentType()\<close>.\<close>

definition FormDataContentType :: "world \<Rightarrow> string" where
  "FormDataContentType w = ''multipart/form-data; boundary='' @ multipart_Boundary w"

text \<open>
  A function of the program returns its \<open>error\<close> (or \<open>nil\<close>), or it panics: \<open>client.Do\<close>
  on a nil request dereferences the nil pointer.
\<close>

datatype ret = Return "error option" | Panic string

definition nil_dereference :: string where
  "nil_dereference = ''runtime error: invalid memory address or nil pointer dereference''"

section \<open>The program\<close>

text \<open>
  Every function takes the world and the converter, and returns its result, the
  converter as it left it and the events it caused.
\<close>

definition validate :: "converter \<Rightarrow> error option" where
  "validate c =
     (if strings_TrimSpace (startImage c) = []
      then Some (errors_New ''You must provide an input URL or path'')
      else None)"

text \<open>\<open>cleanup\<close>: the files gathered for removal, then the loop over them.\<close>

definition filesToRemove :: "converter \<Rightarrow> string list" where
  "filesToRemove c =
     (let fs = [];
          fs = (if startImage c \<noteq> fileToConvert c then fs @ [fileToConvert c] else fs);
          fs = (if strings_TrimSpace (clientID c) \<noteq> [] then fs @ [outputImage c] else fs)
      in fs)"

fun remove_loop :: "world \<Rightarrow> converter \<Rightarrow> string list \<Rightarrow> event list" where
  "remove_loop w c [] = []"
| "remove_loop w c (f # fs) =
     (case os_Remove w f of
        Some err \<Rightarrow>
          [OsRemove f, Stdout (fmt_Sprintln [''Could not remove file: '', fileToConvert c])]
      | None \<Rightarrow> [OsRemove f])
     @ remove_loop w c fs"

definition cleanup :: "world \<Rightarrow> converter \<Rightarrow> event list" where
  "cleanup w c = (if keepFiles c then [] else remove_loop w c (filesToRemove c))"

text \<open>
  \<open>fetchRemote\<close> in two parts. \<open>resolve c u\<close> is the converter after the extension of
  the parsed path has been looked at: for \<open>.gifv\<close> the extension becomes \<open>.mp4\<close> and
  every \<open>.gifv\<close> in \<open>startImage\<close> is replaced; \<open>fileToConvert\<close> is the temporary name with
  the extension. The rest creates the file, builds the request and copies the response;
  the errors of \<open>os.Create\<close> and of \<open>http.NewRequest\<close> are overwritten unread, and a
  request that could not be built is \<open>nil\<close>.
\<close>

definition resolve :: "converter \<Rightarrow> URL \<Rightarrow> converter" where
  "resolve c u =
     (let fileExt = path_Ext (Path u);
          c = (if fileExt = ''.gifv''
               then c\<lparr>startImage := strings_Replace (startImage c) ''.gifv'' ''.mp4'' (- 1)\<rparr>
               else c);
          fileExt = (if fileExt = ''.gifv'' then ''.mp4'' else fileExt)
      in c\<lparr>fileToConvert := tempFileName @ fileExt\<rparr>)"

definition fetchRemote :: "world \<Rightarrow> converter \<Rightarrow> ret \<times> converter \<times> event list" where
  "fetchRemote w c =
     (case url_Parse w (startImage c) of
        Inl err \<Rightarrow> (Return (Some err), c, [])
      | Inr u \<Rightarrow>
          let c = resolve c u;
              temp = (case os_Create w (fileToConvert c) of
                        None \<Rightarrow> Some (fileToConvert c)
                      | Some _ \<Rightarrow> None);
              t = [OsCreate (fileToConvert c)]
          in (case http_NewRequest w ''GET'' (startImage c) NoBody of
                Inl _ \<Rightarrow> (Panic nil_dereference, c, t)
              | Inr req \<Rightarrow>
                  (case client_Do w req of
                     Inl err \<Rightarrow> (Return (Some err), c, t @ [ClientDo req])
                   | Inr resp \<Rightarrow>
                       (case io_Copy w (FileStream temp) (BodyStream resp) of
                          Some err \<Rightarrow>
                            (Return (Some err), c,
                             t @ [ClientDo req, IoCopy (FileStream temp) (BodyStream resp)])
                        | None \<Rightarrow>
                            (Return None, c,
                             t @ [ClientDo req, IoCopy (FileStream temp) (BodyStream resp)])))))"

definition fetchFile :: "world \<Rightarrow> converter \<Rightarrow> ret \<times> converter \<times> event list" where
  "fetchFile w c =
     (if strings_HasPrefix (startImage c) ''http'' then fetchRemote w c
      else
        let c = c\<lparr>fileToConvert := startImage c\<rparr>
        in if os_Stat_IsNotExist w (fileToConvert c)
           then (Return (Some (errors_New ''Input file does not exist'')), c,
                 [OsStat (fileToConvert c)])
           else (Return None, c, [OsStat (fileToConvert c)]))"

definition ffmpeg_args :: "converter \<Rightarrow> string list" where
  "ffmpeg_args c =
     [''-i'', fileToConvert c, ''-pix_fmt'', ''rgb24'',
      ''-vf'', ''scale='' @ imageWidth c @ '':-1'', ''-f'', ''gif'', outputImage c]"

definition gifsicle_args :: "converter \<Rightarrow> string list" where
  "gifsicle_args c = [''--careful'', ''-O3'', ''--batch'', outputImage c]"

definition convert :: "world \<Rightarrow> converter \<Rightarrow> error option \<times> converter \<times> event list" where
  "convert w c =
     (let c = c\<lparr>outputImage := outputFileName @ ''.gif''\<rparr>;
          ffmpeg = CmdRun ''ffmpeg'' (ffmpeg_args c)
      in (case cmd_Run w ''ffmpeg'' (ffmpeg_args c) of
            (Some err, ffmpegErr) \<Rightarrow>
              (Some (errors_New (fmt_Sprint err @ '': '' @ ffmpegErr)), c, [ffmpeg])
          | (None, _) \<Rightarrow>
              let sickle = CmdRun ''gifsicle'' (gifsicle_args c)
              in (case cmd_Run w ''gifsicle'' (gifsicle_args c) of
                    (Some err, sicklekErr) \<Rightarrow>
                      (Some (errors_New (fmt_Sprint err @ '': '' @ sicklekErr)), c,
                       [ffmpeg, sickle])
                  | (None, _) \<Rightarrow> (None, c, [ffmpeg, sickle]))))"

definition upload_request :: "world \<Rightarrow> converter \<Rightarrow> request \<Rightarrow> request" where
  "upload_request w c req =
     Header_Set ''Authorization'' (''Client-ID '' @ clientID c)
       (Header_Set ''Content-Type'' (FormDataContentType w) req)"

definition upload :: "world \<Rightarrow> converter \<Rightarrow> error option \<times> converter \<times> event list" where
  "upload w c =
     (if strings_TrimSpace (clientID c) = []
      then (None, c\<lparr>endImage := outputImage c\<rparr>,
            [Stdout (fmt_Sprintln
               [''No imgur Client ID provided. File will be retained locally.''])])
      else
        (case os_Open w (outputImage c) of
           Some err \<Rightarrow> (Some err, c, [OsOpen (outputImage c)])
         | None \<Rightarrow>
        (case multipart_CreateFormFile w ''image'' (outputImage c) of
           Some err \<Rightarrow> (Some err, c, [OsOpen (outputImage c)])
         | None \<Rightarrow>
        let fw = FormFileStream ''image'' (outputImage c);
            f = FileStream (Some (outputImage c));
            t = [OsOpen (outputImage c), IoCopy fw f]
        in
        (case io_Copy w fw f of
           Some err \<Rightarrow> (Some err, c, t)
         | None \<Rightarrow>
        (case http_NewRequest w ''POST'' imgurAPIEndpoint
                (MultipartForm [(''image'', outputImage c)]) of
           Inl err \<Rightarrow> (Some err, c, t)
         | Inr req0 \<Rightarrow>
        let req = upload_request w c req0
        in
        (case client_Do w req of
           Inl err \<Rightarrow> (Some err, c, t @ [ClientDo req])
         | Inr resp \<Rightarrow>
        (case json_Decode w (Body resp) of
           Inl err \<Rightarrow> (Some err, c, t @ [ClientDo req])
         | Inr imgur \<Rightarrow>
             if Success imgur
             then (None, c\<lparr>endImage := Link (Data imgur)\<rparr>, t @ [ClientDo req])
             else (Some (errors_New (''imgur error: '' @ Err (Data imgur))), c,
                   t @ [ClientDo req]))))))))"

text \<open>
  The command line after \<open>flag.Parse\<close>: a flag that was not given is \<open>None\<close> and takes
  its default.
\<close>

record flags =
  flag_i :: "string option"
  flag_w :: "string option"
  flag_c :: "string option"
  flag_k :: "bool option"
  flag_m :: "bool option"

definition parse_flags :: "world \<Rightarrow> flags \<Rightarrow> converter" where
  "parse_flags w a =
     \<lparr>keepFiles = (case flag_k a of None \<Rightarrow> False | Some b \<Rightarrow> b),
      outputMarkdown = (case flag_m a of None \<Rightarrow> False | Some b \<Rightarrow> b),
      imageWidth = (case flag_w a of None \<Rightarrow> ''300'' | Some s \<Rightarrow> s),
      clientID = (case flag_c a of None \<Rightarrow> os_Getenv w ''IMGUR_CLIENT_ID'' | Some s \<Rightarrow> s),
      startImage = (case flag_i a of None \<Rightarrow> [] | Some s \<Rightarrow> s),
      fileToConvert = [], outputImage = [], endImage = []\<rparr>"

text \<open>
  How the process ends: \<open>main\<close> returns, or a panic ends it after the deferred calls.
\<close>

datatype exit = Returned | Crashed string

text \<open>
  The part of \<open>main\<close> between \<open>defer conv.cleanup()\<close> and its return: the three stages,
  each error printed and ending the run, then the final reference.
\<close>

definition stages :: "world \<Rightarrow> converter \<Rightarrow> exit \<times> converter \<times> event list" where
  "stages w c =
     (case fetchFile w c of
        (Panic p, c1, t1) \<Rightarrow> (Crashed p, c1, t1)
      | (Return (Some err), c1, t1) \<Rightarrow> (Returned, c1, t1 @ [Stdout (fmt_Sprintln [Error err])])
      | (Return None, c1, t1) \<Rightarrow>
     (case convert w c1 of
        (Some err, c2, t2) \<Rightarrow> (Returned, c2, t1 @ t2 @ [Stdout (fmt_Sprintln [Error err])])
      | (None, c2, t2) \<Rightarrow>
     (case upload w c2 of
        (Some err, c3, t3) \<Rightarrow>
          (Returned, c3, t1 @ t2 @ t3 @ [Stdout (fmt_Sprintln [Error err])])
      | (None, c3, t3) \<Rightarrow>
          (Returned, c3,
           t1 @ t2 @ t3 @
           [Stdout (if outputMarkdown c3 then ''![]('' @ endImage c3 @ '')'' @ [CHR 0x0A]
                    else fmt_Sprintln [endImage c3])]))))"

text \<open>
  \<open>run\<close> is \<open>main\<close> from \<open>conv.validate()\<close> on; the deferred \<open>cleanup\<close> runs when the
  stages return and when they panic, on the converter as they left it.
\<close>

definition run :: "world \<Rightarrow> converter \<Rightarrow> exit \<times> converter \<times> event list" where
  "run w c =
     (case validate c of
        Some err \<Rightarrow> (Returned, c, [Stdout (fmt_Sprintln [Error err])])
      | None \<Rightarrow>
          (case stages w c of (x, c', t) \<Rightarrow> (x, c', t @ cleanup w c')))"

definition main :: "world \<Rightarrow> flags \<Rightarrow> exit \<times> converter \<times> event list" where
  "main w a = run w (parse_flags w a)"

section \<open>Example worlds and inputs\<close>

text \<open>
  Concrete worlds and converters on which the properties below are evaluated. In
  \<open>world_ok\<close> every call succeeds; \<open>url_Parse\<close> knows a handful of references and
  gives each the path that \<open>url.Parse\<close> gives it.
\<close>

definition json_success :: imgurResponse where
  "json_success = \<lparr>Success = True, Data = \<lparr>Link = ''https://x/y.gif'', Err = []\<rparr>\<rparr>"

definition json_failure :: imgurResponse where
  "json_failure = \<lparr>Success = False, Data = \<lparr>Link = [], Err = ''rate limited''\<rparr>\<rparr>"

definition world_ok :: world where
  "world_ok =
     \<lparr>os_Getenv = (\<lambda>_. []),
      url_Parse = (\<lambda>s.
        if s = ''http://i.imgur.com/a.gifv'' then Inr \<lparr>Path = ''/a.gifv''\<rparr>
        else if s = ''http://i.imgur.com/a.mp4'' then Inr \<lparr>Path = ''/a.mp4''\<rparr>
        else if s = ''http://x.com/a%2Egifv'' then Inr \<lparr>Path = ''/a.gifv''\<rparr>
        else if s = ''httpfile.mp4'' then Inr \<lparr>Path = ''httpfile.mp4''\<rparr>
        else if s = ''https://api.imgur.com/3/image'' then Inr \<lparr>Path = ''/3/image''\<rparr>
        else Inl (errors_New ''parse error'')),
      os_Stat_IsNotExist = (\<lambda>_. False),
      os_Create = (\<lambda>_. None),
      os_Open = (\<lambda>_. None),
      os_Remove = (\<lambda>_. None),
      client_Do = (\<lambda>req.
        if Method req = ''POST'' then Inr \<lparr>Body = ''success''\<rparr>
        else if RawURL req = ''httpfile.mp4''
        then Inl (errors_New ''unsupported protocol scheme'')
        else Inr \<lparr>Body = ''video''\<rparr>),
      io_Copy = (\<lambda>_ _. None),
      cmd_Run = (\<lambda>_ _. (None, [])),
      multipart_CreateFormFile = (\<lambda>_ _. None),
      multipart_Boundary = ''xyz'',
      json_Decode = (\<lambda>b.
        if b = ''success'' then Inr json_success
        else if b = ''failure'' then Inr json_failure
        else Inl (errors_New ''invalid character''))\<rparr>"

definition flags_none :: flags where
  "flags_none = \<lparr>flag_i = None, flag_w = None, flag_c = None, flag_k = None, flag_m = None\<rparr>"

definition conv_local :: converter where
  "conv_local =
     \<lparr>keepFiles = False, outputMarkdown = False, imageWidth = ''300'', clientID = ''abc'',
      startImage = ''in.mp4'', fileToConvert = ''in.mp4'', outputImage = [], endImage = []\<rparr>"

definition world_ffmpeg_fails :: world where
  "world_ffmpeg_fails =
     world_ok\<lparr>cmd_Run := (\<lambda>name args.
        if name = ''ffmpeg'' then (Some (errors_New ''exit status 1''), ''Invalid data'')
        else (None, []))\<rparr>"

definition conv_start :: "string \<Rightarrow> converter" where
  "conv_start s =
     \<lparr>keepFiles = False, outputMarkdown = False, imageWidth = ''300'', clientID = ''abc'',
      startImage = s, fileToConvert = [], outputImage = [], endImage = []\<rparr>"

definition conv_remote :: converter where
  "conv_remote =
     \<lparr>keepFiles = False, outputMarkdown = False, imageWidth = ''300'', clientID = ''abc'',
      startImage = ''http://i.imgur.com/a.mp4'', fileToConvert = ''temp_file_to_convert.mp4'',
      outputImage = ''output.gif'', endImage = []\<rparr>"

definition world_keeps_output :: world where
  "world_keeps_output =
     world_ok\<lparr>os_Remove := (\<lambda>f.
        if f = ''output.gif'' then Some (errors_New ''permission denied'') else None)\<rparr>"

definition world_upload_rejected :: world where
  "world_upload_rejected = world_ok\<lparr>client_Do := (\<lambda>req. Inr \<lparr>Body = ''failure''\<rparr>)\<rparr>"

definition world_create_fails :: world where
  "world_create_fails = world_ok\<lparr>os_Create := (\<lambda>p. Some (errors_New ''permission denied''))\<rparr>"

definition flags_local :: flags where
  "flags_local = flags_none\<lparr>flag_i := Some ''in.mp4''\<rparr>"

definition flags_cred :: flags where
  "flags_cred = flags_none\<lparr>flag_i := Some ''in.mp4'', flag_c := Some ''abc''\<rparr>"

definition conv_nocred :: converter where
  "conv_nocred =
     \<lparr>keepFiles = False, outputMarkdown = False, imageWidth = ''300'', clientID = [],
      startImage = ''in.mp4'', fileToConvert = ''in.mp4'', outputImage = [], endImage = []\<rparr>"

section \<open>Auxiliary facts\<close>

text \<open>The deferred \<open>cleanup\<close> only removes files and prints warnings.\<close>

lemma cleanup_events:
  "e \<in> set (cleanup w c) \<Longrightarrow> (\<exists>f. e = OsRemove f) \<or> (\<exists>s. e = Stdout s)"
proof -
  have "e \<in> set (remove_loop w c fs) \<Longrightarrow> (\<exists>f. e = OsRemove f) \<or> (\<exists>s. e = Stdout s)" for fs
    by (induction fs) (auto split: option.splits)
  then show "e \<in> set (cleanup w c) \<Longrightarrow> (\<exists>f. e = OsRemove f) \<or> (\<exists>s. e = Stdout s)"
    by (auto simp: cleanup_def split: if_splits)
qed

text \<open>
  What each stage does to the converter and which events it can cause; \<open>fetchRemote\<close>
  once the reference has parsed.
\<close>

lemma fetchRemote_no_stat: "OsStat p \<notin> set (snd (snd (fetchRemote w c)))"
  by (auto simp: fetchRemote_def Let_def split: sum.splits option.splits)

lemma remove_loop_concat:
  "remove_loop w c fs =
     concat (map (\<lambda>f. OsRemove f #
       (if os_Remove w f = None then []
        else [Stdout (''Could not remove file:  '' @ fileToConvert c @ [CHR 0x0A])])) fs)"
proof (induction fs)
  case Nil
  show ?case by simp
next
  case (Cons f fs)
  show ?case
  proof (cases "os_Remove w f")
    case None
    with Cons show ?thesis by simp
  next
    case (Some err)
    with Cons show ?thesis by (simp add: fmt_Sprintln_def)
  qed
qed

lemma remove_loop_stdout:
  "Stdout s \<in> set (remove_loop w c fs) \<Longrightarrow>
     s = ''Could not remove file:  '' @ fileToConvert c @ [CHR 0x0A]"
proof (induction fs)
  case Nil
  then show ?case by simp
next
  case (Cons f fs)
  then show ?case
    by (cases "os_Remove w f") (auto simp: fmt_Sprintln_def)
qed

lemma fetchRemote_parsed:
  "url_Parse w (startImage c) = Inr u \<Longrightarrow>
   fetchRemote w c =
     (case http_NewRequest w ''GET'' (startImage (resolve c u)) NoBody of
        Inl _ \<Rightarrow> (Panic nil_dereference, resolve c u, [OsCreate (fileToConvert (resolve c u))])
      | Inr req \<Rightarrow>
          (case client_Do w req of
             Inl err \<Rightarrow>
               (Return (Some err), resolve c u,
                [OsCreate (fileToConvert (resolve c u)), ClientDo req])
           | Inr resp \<Rightarrow>
               (Return (io_Copy w
                  (FileStream (case os_Create w (fileToConvert (resolve c u)) of
                                 None \<Rightarrow> Some (fileToConvert (resolve c u))
                               | Some _ \<Rightarrow> None))
                  (BodyStream resp)),
                resolve c u,
                [OsCreate (fileToConvert (resolve c u)), ClientDo req,
                 IoCopy (FileStream (case os_Create w (fileToConvert (resolve c u)) of
                                       None \<Rightarrow> Some (fileToConvert (resolve c u))
                                     | Some _ \<Rightarrow> None))
                        (BodyStream resp)])))"
  by (simp add: fetchRemote_def Let_def split: sum.splits option.splits)

lemma resolve_fields:
  "clientID (resolve c u) = clientID c"
  "keepFiles (resolve c u) = keepFiles c"
  "outputMarkdown (resolve c u) = outputMarkdown c"
  "outputImage (resolve c u) = outputImage c"
  "endImage (resolve c u) = endImage c"
  "\<exists>ext. fileToConvert (resolve c u) = tempFileName @ ext"
  by (simp_all add: resolve_def Let_def)

lemma fetchRemote_result:
  assumes "fetchRemote w c = (r, c1, t1)"
  shows "clientID c1 = clientID c \<and> keepFiles c1 = keepFiles c
       \<and> outputMarkdown c1 = outputMarkdown c \<and> outputImage c1 = outputImage c
       \<and> endImage c1 = endImage c
       \<and> (fileToConvert c1 = fileToConvert c \<and> r \<noteq> Return None
            \<or> (\<exists>ext. fileToConvert c1 = tempFileName @ ext))
       \<and> (\<forall>e \<in> set t1. (\<exists>p. e = OsCreate p) \<or> (\<exists>req. e = ClientDo req \<and> Method req = ''GET'')
             \<or> (\<exists>a b. e = IoCopy a b))"
proof (cases "url_Parse w (startImage c)")
  case (Inl err)
  with assms show ?thesis by (auto simp: fetchRemote_def)
next
  case (Inr u)
  have m: "http_NewRequest w ''GET'' s NoBody = Inr req \<Longrightarrow> Method req = ''GET''" for s req
    by (auto simp: http_NewRequest_def split: sum.splits)
  from assms Inr resolve_fields [of c u] show ?thesis
    by (auto simp: fetchRemote_parsed split: sum.splits dest: m)
qed

lemma fetchFile_result:
  assumes "fetchFile w c = (r, c1, t1)"
  shows "clientID c1 = clientID c \<and> keepFiles c1 = keepFiles c
       \<and> outputMarkdown c1 = outputMarkdown c \<and> outputImage c1 = outputImage c
       \<and> endImage c1 = endImage c
       \<and> (fileToConvert c1 = startImage c1
            \<or> fileToConvert c1 = fileToConvert c \<and> r \<noteq> Return None
            \<or> (\<exists>ext. fileToConvert c1 = tempFileName @ ext))
       \<and> (\<forall>e \<in> set t1. (\<exists>p. e = OsStat p) \<or> (\<exists>p. e = OsCreate p)
             \<or> (\<exists>req. e = ClientDo req \<and> Method req = ''GET'') \<or> (\<exists>a b. e = IoCopy a b))"
proof (cases "strings_HasPrefix (startImage c) ''http''")
  case True
  with assms have "fetchRemote w c = (r, c1, t1)" by (simp add: fetchFile_def)
  from fetchRemote_result [OF this] show ?thesis by blast
next
  case False
  with assms show ?thesis
    by (auto simp: fetchFile_def Let_def split: if_splits)
qed

lemma convert_result:
  assumes "convert w c = (r, c2, t2)"
  shows "c2 = c\<lparr>outputImage := ''output.gif''\<rparr> \<and> (\<forall>e \<in> set t2. \<exists>n a. e = CmdRun n a)"
  using assms
  by (auto simp: convert_def Let_def outputFileName_def split: prod.splits option.splits)

lemma upload_blank:
  "strings_TrimSpace (clientID c) = [] \<Longrightarrow>
   upload w c =
     (None, c\<lparr>endImage := outputImage c\<rparr>,
      [Stdout (''No imgur Client ID provided. File will be retained locally.'' @ [CHR 0x0A])])"
  by (simp add: upload_def fmt_Sprintln_def)

lemma upload_result:
  assumes "upload w c = (r, c3, t3)"
  shows "(c3 = c \<or> (\<exists>l. c3 = c\<lparr>endImage := l\<rparr>))
       \<and> (\<forall>e \<in> set t3. (\<exists>s. e = Stdout s) \<or> (\<exists>p. e = OsOpen p) \<or> (\<exists>a b. e = IoCopy a b)
             \<or> (\<exists>req. e = ClientDo req))"
  using assms
  by (auto simp: upload_def Let_def split: if_splits option.splits sum.splits)

lemma stages_result:
  assumes st: "stages w c = (x, c', t)" and f: "fetchFile w c = (r, c1, t1)"
  shows "startImage c' = startImage c1 \<and> fileToConvert c' = fileToConvert c1
       \<and> clientID c' = clientID c1 \<and> keepFiles c' = keepFiles c1
       \<and> outputImage c' = (if r = Return None then ''output.gif'' else outputImage c1)
       \<and> (\<forall>p. OsRemove p \<notin> set t)
       \<and> (strings_TrimSpace (clientID c1) = [] \<longrightarrow>
            (\<forall>req. ClientDo req \<in> set t \<longrightarrow> Method req = ''GET''))"
proof -
  from fetchFile_result [OF f]
  have t1: "\<forall>e \<in> set t1. (\<exists>p. e = OsStat p) \<or> (\<exists>p. e = OsCreate p)
             \<or> (\<exists>req. e = ClientDo req \<and> Method req = ''GET'') \<or> (\<exists>a b. e = IoCopy a b)"
    by blast
  then have t1r: "OsRemove p \<notin> set t1" for p by blast
  from t1 have t1g: "ClientDo req \<in> set t1 \<Longrightarrow> Method req = ''GET''" for req by blast
  show ?thesis
  proof (cases "r = Return None")
    case False
    then have "(\<exists>p. r = Panic p \<and> x = Crashed p \<and> t = t1 \<and> c' = c1)
        \<or> (\<exists>e. r = Return (Some e) \<and> t = t1 @ [Stdout (fmt_Sprintln [Error e])] \<and> c' = c1)"
      using st f by (cases r) (auto simp: stages_def split: option.splits)
    with False t1r t1g show ?thesis by auto
  next
    case True
    obtain r2 c2 t2 where cv: "convert w c1 = (r2, c2, t2)"
      by (metis prod_cases3)
    from convert_result [OF cv]
    have c2: "c2 = c1\<lparr>outputImage := ''output.gif''\<rparr>" and t2: "\<forall>e \<in> set t2. \<exists>n a. e = CmdRun n a"
      by blast+
    from t2 have t2r: "OsRemove p \<notin> set t2" and t2g: "ClientDo req \<notin> set t2" for p req
      by blast+
    show ?thesis
    proof (cases r2)
      case (Some e)
      with True st f cv have "t = t1 @ t2 @ [Stdout (fmt_Sprintln [Error e])] \<and> c' = c2"
        by (simp add: stages_def)
      with True c2 t1r t1g t2r t2g show ?thesis by auto
    next
      case None
      obtain r3 c3 t3 where up: "upload w c2 = (r3, c3, t3)"
        by (metis prod_cases3)
      from upload_result [OF up]
      have c3: "c3 = c2 \<or> (\<exists>l. c3 = c2\<lparr>endImage := l\<rparr>)"
        and t3: "\<forall>e \<in> set t3. (\<exists>s. e = Stdout s) \<or> (\<exists>p. e = OsOpen p) \<or> (\<exists>a b. e = IoCopy a b)
             \<or> (\<exists>req. e = ClientDo req)"
        by blast+
      from t3 have t3r: "OsRemove p \<notin> set t3" for p by blast
      have t3g: "strings_TrimSpace (clientID c1) = [] \<Longrightarrow> ClientDo req \<notin> set t3" for req
        using up upload_blank [of c2 w] c2 by auto
      from True None st f cv up have "\<exists>s. t = t1 @ t2 @ t3 @ [Stdout s] \<and> c' = c3"
        by (cases r3) (auto simp: stages_def)
      with True c2 c3 t1r t1g t2r t2g t3r t3g show ?thesis by auto
    qed
  qed
qed

lemma cleanup_removes:
  "OsRemove f \<in> set (cleanup w c) \<longleftrightarrow> \<not> keepFiles c \<and> f \<in> set (filesToRemove c)"
proof -
  have "OsRemove f \<in> set (remove_loop w c fs) \<longleftrightarrow> f \<in> set fs" for fs
    by (induction fs) (auto split: option.splits)
  then show ?thesis by (simp add: cleanup_def)
qed

lemma cleanup_no_ClientDo: "ClientDo req \<notin> set (cleanup w c)"
  using cleanup_events [of "ClientDo req" w c] by auto

lemma parse_flags_fileToConvert: "fileToConvert (parse_flags w a) = []"
  by (simp add: parse_flags_def)

lemma output_in_filesToRemove:
  assumes "fileToConvert c = startImage c \<or> fileToConvert c = []
           \<or> (\<exists>ext. fileToConvert c = tempFileName @ ext)"
  shows "''output.gif'' \<in> set (filesToRemove c) \<longleftrightarrow>
         strings_TrimSpace (clientID c) \<noteq> [] \<and> outputImage c = ''output.gif''"
proof -
  have fs: "filesToRemove c =
      (if startImage c \<noteq> fileToConvert c then [fileToConvert c] else [])
      @ (if strings_TrimSpace (clientID c) \<noteq> [] then [outputImage c] else [])"
    by (simp add: filesToRemove_def Let_def)
  have "tempFileName @ ext \<noteq> ''output.gif''" for ext
    by (simp add: tempFileName_def)
  with assms have "startImage c = fileToConvert c \<or> fileToConvert c \<noteq> ''output.gif''"
    by auto
  then show ?thesis
    unfolding fs by auto
qed

text \<open>The run \<open>-i in.mp4 -c abc\<close> in a world whose \<open>ffmpeg\<close> exits with status 1.\<close>

lemma main_ffmpeg_fails:
  "main world_ffmpeg_fails flags_cred =
     (Returned, conv_local\<lparr>outputImage := ''output.gif''\<rparr>,
      [OsStat ''in.mp4'',
       CmdRun ''ffmpeg''
         [''-i'', ''in.mp4'', ''-pix_fmt'', ''rgb24'', ''-vf'', ''scale=300:-1'',
          ''-f'', ''gif'', ''output.gif''],
       Stdout (''exit status 1: Invalid data'' @ [CHR 0x0A]),
       OsRemove ''output.gif''])"
proof -
  let ?c0 = "parse_flags world_ffmpeg_fails flags_cred"
  let ?c2 = "conv_local\<lparr>outputImage := ''output.gif''\<rparr>"
  have c0: "?c0 = conv_local\<lparr>fileToConvert := []\<rparr>"
    by (simp add: parse_flags_def flags_cred_def flags_none_def conv_local_def)
  have h1: "validate ?c0 = None"
    unfolding c0
    by (simp add: validate_def conv_local_def strings_TrimSpace_def spaceRunes_def)
  have h2: "fetchFile world_ffmpeg_fails ?c0 = (Return None, conv_local, [OsStat ''in.mp4''])"
    unfolding c0
    by (simp add: fetchFile_def strings_HasPrefix_def conv_local_def world_ffmpeg_fails_def
        world_ok_def)
  have h3: "convert world_ffmpeg_fails conv_local =
      (Some (errors_New ''exit status 1: Invalid data''), ?c2,
       [CmdRun ''ffmpeg''
         [''-i'', ''in.mp4'', ''-pix_fmt'', ''rgb24'', ''-vf'', ''scale=300:-1'',
          ''-f'', ''gif'', ''output.gif'']])"
    by (simp add: convert_def world_ffmpeg_fails_def Let_def conv_local_def ffmpeg_args_def
        outputFileName_def fmt_Sprint_def)
  have st: "stages world_ffmpeg_fails ?c0 =
      (Returned, ?c2,
       [OsStat ''in.mp4'',
        CmdRun ''ffmpeg''
         [''-i'', ''in.mp4'', ''-pix_fmt'', ''rgb24'', ''-vf'', ''scale=300:-1'',
          ''-f'', ''gif'', ''output.gif''],
        Stdout (''exit status 1: Invalid data'' @ [CHR 0x0A])])"
    by (simp add: stages_def h2 h3 fmt_Sprintln_def)
  have cl: "cleanup world_ffmpeg_fails ?c2 = [OsRemove ''output.gif'']"
    by (simp add: cleanup_def filesToRemove_def conv_local_def strings_TrimSpace_def
        spaceRunes_def world_ffmpeg_fails_def world_ok_def)
  show ?thesis
    by (simp add: main_def run_def h1 st cl)
qed

section \<open>The claims\<close>

subsection \<open>Cleanup and the transcoded output\<close>

text \<open>
  Claim C1 has \<open>cleanup\<close> gather the transcoded output for removal only if something
  was uploaded, as the comment in \<open>cleanup\<close> says (the local copy is left when the file
  was not uploaded). The code does not keep to it. In the run \<open>-i in.mp4 -c abc\<close> whose
  transcoder exits with status 1, retention is not asked for and nothing is uploaded: the
  whole trace is the existence check, the \<open>ffmpeg\<close> command, the printed error and one
  removal, with no HTTP round trip. Still the output path is among the files gathered
  for removal, and the removal is that of \<open>output.gif\<close>.
\<close>

theorem output_removed_without_upload:
  "\<not> keepFiles (fst (snd (main world_ffmpeg_fails flags_cred)))
   \<and> outputImage (fst (snd (main world_ffmpeg_fails flags_cred)))
       \<in> set (filesToRemove (fst (snd (main world_ffmpeg_fails flags_cred))))
   \<and> snd (snd (main world_ffmpeg_fails flags_cred)) =
      [OsStat ''in.mp4'',
       CmdRun ''ffmpeg''
         [''-i'', ''in.mp4'', ''-pix_fmt'', ''rgb24'', ''-vf'', ''scale=300:-1'',
          ''-f'', ''gif'', ''output.gif''],
       Stdout (''exit status 1: Invalid data'' @ [CHR 0x0A]),
       OsRemove ''output.gif'']"
  unfolding main_ffmpeg_fails
  by (simp add: filesToRemove_def conv_local_def strings_TrimSpace_def spaceRunes_def)

subsection \<open>The gifv alias\<close>

text \<open>
  A reference that ends in \<open>.gifv\<close> as written: the file is saved as \<open>.mp4\<close> and the
  reference is fetched with \<open>.mp4\<close> in the place of \<open>.gifv\<close>.
\<close>

lemma fetchRemote_gifv_literal:
  "fetchRemote world_ok (conv_start ''http://i.imgur.com/a.gifv'') =
     (Return None,
      (conv_start ''http://i.imgur.com/a.gifv'')
        \<lparr>startImage := ''http://i.imgur.com/a.mp4'',
         fileToConvert := ''temp_file_to_convert.mp4''\<rparr>,
      [OsCreate ''temp_file_to_convert.mp4'',
       ClientDo \<lparr>Method = ''GET'', RawURL = ''http://i.imgur.com/a.mp4'', Header = [],
                 ReqBody = NoBody\<rparr>,
       IoCopy (FileStream (Some ''temp_file_to_convert.mp4'')) (BodyStream \<lparr>Body = ''video''\<rparr>)])"
proof -
  let ?c = "conv_start ''http://i.imgur.com/a.gifv''"
  have p: "url_Parse world_ok (startImage ?c) = Inr \<lparr>Path = ''/a.gifv''\<rparr>"
    by (simp add: world_ok_def conv_start_def)
  have e: "path_Ext ''/a.gifv'' = ''.gifv''"
    by (simp add: path_Ext_def)
  have r: "resolve ?c \<lparr>Path = ''/a.gifv''\<rparr> =
      ?c\<lparr>startImage := ''http://i.imgur.com/a.mp4'',
         fileToConvert := ''temp_file_to_convert.mp4''\<rparr>"
    by (simp add: resolve_def e Let_def conv_start_def tempFileName_def)
  have n: "http_NewRequest world_ok ''GET'' ''http://i.imgur.com/a.mp4'' NoBody =
      Inr \<lparr>Method = ''GET'', RawURL = ''http://i.imgur.com/a.mp4'', Header = [],
           ReqBody = NoBody\<rparr>"
    by (simp add: http_NewRequest_def world_ok_def)
  have d: "client_Do world_ok
      \<lparr>Method = ''GET'', RawURL = ''http://i.imgur.com/a.mp4'', Header = [], ReqBody = NoBody\<rparr>
      = Inr \<lparr>Body = ''video''\<rparr>"
    by (simp add: world_ok_def)
  have k: "os_Create world_ok f = None" "io_Copy world_ok dst src = None" for f dst src
    by (simp_all add: world_ok_def)
  show ?thesis
    unfolding fetchRemote_parsed [OF p] r by (simp add: n d k)
qed

text \<open>
  Claim C2 has the input resolver rewrite both the URL it fetches and the name it saves
  under to \<open>.mp4\<close> whenever the path of the reference ends in \<open>.gifv\<close>. The code
  does not keep to it for the URL. The path of \<open>http://x.com/a%2Egifv\<close>, once
  \<open>url.Parse\<close> has decoded \<open>%2E\<close>, is \<open>/a.gifv\<close>, with the extension \<open>.gifv\<close>: the
  file is saved as \<open>temp_file_to_convert.mp4\<close>, but the one request of the fetch is a
  \<open>GET\<close> of the reference as it was given, which has no \<open>.mp4\<close> in it.
\<close>

theorem gifv_percent_encoded_not_rewritten:
  "url_Parse world_ok (startImage (conv_start ''http://x.com/a%2Egifv''))
     = Inr \<lparr>Path = ''/a.gifv''\<rparr>
   \<and> path_Ext ''/a.gifv'' = ''.gifv''
   \<and> fetchRemote world_ok (conv_start ''http://x.com/a%2Egifv'') =
       (Return None,
        (conv_start ''http://x.com/a%2Egifv'')\<lparr>fileToConvert := ''temp_file_to_convert.mp4''\<rparr>,
        [OsCreate ''temp_file_to_convert.mp4'',
         ClientDo \<lparr>Method = ''GET'', RawURL = ''http://x.com/a%2Egifv'', Header = [],
                   ReqBody = NoBody\<rparr>,
         IoCopy (FileStream (Some ''temp_file_to_convert.mp4'')) (BodyStream \<lparr>Body = ''video''\<rparr>)])"
proof -
  let ?c = "conv_start ''http://x.com/a%2Egifv''"
  have p: "url_Parse world_ok (startImage ?c) = Inr \<lparr>Path = ''/a.gifv''\<rparr>"
    by (simp add: world_ok_def conv_start_def)
  have e: "path_Ext ''/a.gifv'' = ''.gifv''"
    by (simp add: path_Ext_def)
  have r: "resolve ?c \<lparr>Path = ''/a.gifv''\<rparr> = ?c\<lparr>fileToConvert := ''temp_file_to_convert.mp4''\<rparr>"
    by (simp add: resolve_def e Let_def conv_start_def tempFileName_def)
  have n: "http_NewRequest world_ok ''GET'' ''http://x.com/a%2Egifv'' NoBody =
      Inr \<lparr>Method = ''GET'', RawURL = ''http://x.com/a%2Egifv'', Header = [], ReqBody = NoBody\<rparr>"
    by (simp add: http_NewRequest_def world_ok_def)
  have d: "client_Do world_ok
      \<lparr>Method = ''GET'', RawURL = ''http://x.com/a%2Egifv'', Header = [], ReqBody = NoBody\<rparr>
      = Inr \<lparr>Body = ''video''\<rparr>"
    by (simp add: world_ok_def)
  have k: "os_Create world_ok f = None" "io_Copy world_ok dst src = None" for f dst src
    by (simp_all add: world_ok_def)
  have s: "startImage ?c = ''http://x.com/a%2Egifv''"
    by (simp add: conv_start_def)
  have "fetchRemote world_ok ?c =
       (Return None, ?c\<lparr>fileToConvert := ''temp_file_to_convert.mp4''\<rparr>,
        [OsCreate ''temp_file_to_convert.mp4'',
         ClientDo \<lparr>Method = ''GET'', RawURL = ''http://x.com/a%2Egifv'', Header = [],
                   ReqBody = NoBody\<rparr>,
         IoCopy (FileStream (Some ''temp_file_to_convert.mp4'')) (BodyStream \<lparr>Body = ''video''\<rparr>)])"
    unfolding fetchRemote_parsed [OF p] r by (simp add: s n d k)
  with p e show ?thesis by blast
qed

subsection \<open>The decoded upload response\<close>

text \<open>
  Claim C3. With a credential that is not blank after trimming, when the upload goes
  through and the response decodes: if the success flag is set, \<open>upload\<close> returns no
  error and the final reference is exactly the decoded link; if it is not set, \<open>upload\<close>
  returns the error \<open>imgur error: \<close> followed by the decoded error string, and leaves the
  converter, so also the final reference, as it was.
\<close>

theorem upload_decoded_response:
  assumes "strings_TrimSpace (clientID c) \<noteq> []"
    and "os_Open w (outputImage c) = None"
    and "multipart_CreateFormFile w ''image'' (outputImage c) = None"
    and "io_Copy w (FormFileStream ''image'' (outputImage c))
           (FileStream (Some (outputImage c))) = None"
    and "http_NewRequest w ''POST'' imgurAPIEndpoint
           (MultipartForm [(''image'', outputImage c)]) = Inr req0"
    and "client_Do w (upload_request w c req0) = Inr resp"
    and "json_Decode w (Body resp) = Inr imgur"
  shows "(Success imgur \<longrightarrow>
            fst (upload w c) = None
            \<and> fst (snd (upload w c)) = c\<lparr>endImage := Link (Data imgur)\<rparr>)
       \<and> (\<not> Success imgur \<longrightarrow>
            fst (upload w c) = Some (errors_New (''imgur error: '' @ Err (Data imgur)))
            \<and> fst (snd (upload w c)) = c)"
  using assms by (simp add: upload_def Let_def)

theorem upload_decoded_response_witness:
  "strings_TrimSpace (clientID conv_remote) \<noteq> []
   \<and> json_Decode world_ok ''success'' = Inr json_success \<and> Success json_success
   \<and> upload world_ok conv_remote =
       (None, conv_remote\<lparr>endImage := ''https://x/y.gif''\<rparr>,
        snd (snd (upload world_ok conv_remote)))
   \<and> json_Decode world_upload_rejected ''failure'' = Inr json_failure \<and> \<not> Success json_failure
   \<and> upload world_upload_rejected conv_remote =
       (Some (errors_New ''imgur error: rate limited''), conv_remote,
        snd (snd (upload world_upload_rejected conv_remote)))"
proof -
  have h1: "strings_TrimSpace (clientID conv_remote) \<noteq> []"
    by (simp add: conv_remote_def strings_TrimSpace_def spaceRunes_def)
  have h2: "os_Open world_ok (outputImage conv_remote) = None"
    "os_Open world_upload_rejected (outputImage conv_remote) = None"
    by (simp_all add: world_ok_def world_upload_rejected_def)
  have h3: "multipart_CreateFormFile world_ok ''image'' (outputImage conv_remote) = None"
    "multipart_CreateFormFile world_upload_rejected ''image'' (outputImage conv_remote) = None"
    by (simp_all add: world_ok_def world_upload_rejected_def)
  have h4: "io_Copy world_ok (FormFileStream ''image'' (outputImage conv_remote))
           (FileStream (Some (outputImage conv_remote))) = None"
    "io_Copy world_upload_rejected (FormFileStream ''image'' (outputImage conv_remote))
           (FileStream (Some (outputImage conv_remote))) = None"
    by (simp_all add: world_ok_def world_upload_rejected_def)
  have h5: "http_NewRequest world_ok ''POST'' imgurAPIEndpoint
           (MultipartForm [(''image'', outputImage conv_remote)]) =
           Inr \<lparr>Method = ''POST'', RawURL = imgurAPIEndpoint, Header = [],
                ReqBody = MultipartForm [(''image'', outputImage conv_remote)]\<rparr>"
    "http_NewRequest world_upload_rejected ''POST'' imgurAPIEndpoint
           (MultipartForm [(''image'', outputImage conv_remote)]) =
           Inr \<lparr>Method = ''POST'', RawURL = imgurAPIEndpoint, Header = [],
                ReqBody = MultipartForm [(''image'', outputImage conv_remote)]\<rparr>"
    by (simp_all add: http_NewRequest_def world_ok_def world_upload_rejected_def
        imgurAPIEndpoint_def)
  have h6: "client_Do world_ok (upload_request world_ok conv_remote
              \<lparr>Method = ''POST'', RawURL = imgurAPIEndpoint, Header = [],
                ReqBody = MultipartForm [(''image'', outputImage conv_remote)]\<rparr>)
            = Inr \<lparr>Body = ''success''\<rparr>"
    "client_Do world_upload_rejected (upload_request world_upload_rejected conv_remote
              \<lparr>Method = ''POST'', RawURL = imgurAPIEndpoint, Header = [],
                ReqBody = MultipartForm [(''image'', outputImage conv_remote)]\<rparr>)
            = Inr \<lparr>Body = ''failure''\<rparr>"
    by (simp_all add: world_ok_def world_upload_rejected_def upload_request_def Header_Set_def)
  have h7: "json_Decode world_ok (Body \<lparr>Body = ''success''\<rparr>) = Inr json_success"
    "json_Decode world_upload_rejected (Body \<lparr>Body = ''failure''\<rparr>) = Inr json_failure"
    by (simp_all add: world_ok_def world_upload_rejected_def)
  have s: "Success json_success" "\<not> Success json_failure"
    "Link (Data json_success) = ''https://x/y.gif''" "Err (Data json_failure) = ''rate limited''"
    by (simp_all add: json_success_def json_failure_def)
  show ?thesis
    using upload_decoded_response [OF h1 h2(1) h3(1) h4(1) h5(1) h6(1) h7(1)]
      upload_decoded_response [OF h1 h2(2) h3(2) h4(2) h5(2) h6(2) h7(2)] h1 h7 s
    by (simp add: prod_eq_iff)
qed

subsection \<open>No hosting credential\<close>

text \<open>
  Claim C4. When the hosting credential, from the flag or else from the environment,
  is blank after trimming: the publisher makes no network call (it prints its notice and
  sets the final reference to the path of the optimized file, whatever the converter),
  so the only HTTP round trips of the whole run are the \<open>GET\<close>s of the download; no run
  removes \<open>output.gif\<close>; and a run whose fetch and transcode succeed prints the notice
  and then \<open>output.gif\<close> as its final reference (inside the Markdown image link when
  that was asked for), and \<open>cleanup\<close> does not gather \<open>output.gif\<close> for removal.
\<close>

theorem no_credential_keeps_output:
  assumes blank: "strings_TrimSpace (clientID (parse_flags w a)) = []"
  shows "(\<forall>c. clientID c = clientID (parse_flags w a) \<longrightarrow>
            upload w c =
              (None, c\<lparr>endImage := outputImage c\<rparr>,
               [Stdout (''No imgur Client ID provided. File will be retained locally.''
                        @ [CHR 0x0A])]))
       \<and> (\<forall>req. ClientDo req \<in> set (snd (snd (main w a))) \<longrightarrow> Method req = ''GET'')
       \<and> OsRemove ''output.gif'' \<notin> set (snd (snd (main w a)))
       \<and> (\<forall>c1 t1 c2 t2.
            validate (parse_flags w a) = None
            \<and> fetchFile w (parse_flags w a) = (Return None, c1, t1)
            \<and> convert w c1 = (None, c2, t2) \<longrightarrow>
            main w a =
              (Returned, c2\<lparr>endImage := ''output.gif''\<rparr>,
               t1 @ t2 @
               [Stdout (''No imgur Client ID provided. File will be retained locally.''
                        @ [CHR 0x0A]),
                Stdout (if outputMarkdown c2 then ''![](output.gif)'' @ [CHR 0x0A]
                        else ''output.gif'' @ [CHR 0x0A])]
               @ cleanup w (c2\<lparr>endImage := ''output.gif''\<rparr>))
            \<and> outputImage c2 = ''output.gif''
            \<and> ''output.gif'' \<notin> set (filesToRemove (c2\<lparr>endImage := ''output.gif''\<rparr>)))"
proof -
  let ?c0 = "parse_flags w a"
  obtain r c1 t1 where f: "fetchFile w ?c0 = (r, c1, t1)"
    by (metis prod_cases3)
  obtain x c' t where st: "stages w ?c0 = (x, c', t)"
    by (metis prod_cases3)
  note fr = fetchFile_result [OF f]
  note sr = stages_result [OF st f]
  from fr blank have b1: "strings_TrimSpace (clientID c1) = []" by simp
  from sr b1 have b': "strings_TrimSpace (clientID c') = []" by simp
  from fr have shape1: "fileToConvert c1 = startImage c1 \<or> fileToConvert c1 = []
           \<or> (\<exists>ext. fileToConvert c1 = tempFileName @ ext)"
    by (auto simp: parse_flags_fileToConvert)
  with sr have shape': "fileToConvert c' = startImage c' \<or> fileToConvert c' = []
           \<or> (\<exists>ext. fileToConvert c' = tempFileName @ ext)"
    by simp
  have p1: "\<forall>c. clientID c = clientID ?c0 \<longrightarrow>
            upload w c =
              (None, c\<lparr>endImage := outputImage c\<rparr>,
               [Stdout (''No imgur Client ID provided. File will be retained locally.''
                        @ [CHR 0x0A])])"
    using blank by (simp add: upload_blank)
  have tr: "snd (snd (main w a)) =
      (case validate ?c0 of Some err \<Rightarrow> [Stdout (fmt_Sprintln [Error err])]
       | None \<Rightarrow> t @ cleanup w c')"
    using st by (simp add: main_def run_def split: option.splits)
  have p2: "\<forall>req. ClientDo req \<in> set (snd (snd (main w a))) \<longrightarrow> Method req = ''GET''"
    unfolding tr using sr b1 cleanup_no_ClientDo [of _ w c']
    by (auto split: option.splits)
  have "OsRemove ''output.gif'' \<notin> set (cleanup w c')"
    using output_in_filesToRemove [OF shape'] b' by (simp add: cleanup_removes)
  then have p3: "OsRemove ''output.gif'' \<notin> set (snd (snd (main w a)))"
    unfolding tr using sr by (auto split: option.splits)
  have p4: "\<forall>d1 u1 d2 u2.
            validate ?c0 = None
            \<and> fetchFile w ?c0 = (Return None, d1, u1)
            \<and> convert w d1 = (None, d2, u2) \<longrightarrow>
            main w a =
              (Returned, d2\<lparr>endImage := ''output.gif''\<rparr>,
               u1 @ u2 @
               [Stdout (''No imgur Client ID provided. File will be retained locally.''
                        @ [CHR 0x0A]),
                Stdout (if outputMarkdown d2 then ''![](output.gif)'' @ [CHR 0x0A]
                        else ''output.gif'' @ [CHR 0x0A])]
               @ cleanup w (d2\<lparr>endImage := ''output.gif''\<rparr>))
            \<and> outputImage d2 = ''output.gif''
            \<and> ''output.gif'' \<notin> set (filesToRemove (d2\<lparr>endImage := ''output.gif''\<rparr>))"
  proof (intro allI impI)
    fix d1 u1 d2 u2
    assume h: "validate ?c0 = None
            \<and> fetchFile w ?c0 = (Return None, d1, u1)
            \<and> convert w d1 = (None, d2, u2)"
    with f have eq: "r = Return None" "d1 = c1" "u1 = t1" by simp_all
    from h eq have cv: "convert w c1 = (None, d2, u2)" by simp
    from convert_result [OF cv] have d2: "d2 = c1\<lparr>outputImage := ''output.gif''\<rparr>" by blast
    from d2 b1 have bd: "strings_TrimSpace (clientID d2) = []" by simp
    from d2 have o: "outputImage d2 = ''output.gif''" by simp
    have up: "upload w d2 =
              (None, d2\<lparr>endImage := ''output.gif''\<rparr>,
               [Stdout (''No imgur Client ID provided. File will be retained locally.''
                        @ [CHR 0x0A])])"
      using upload_blank [OF bd, of w] o by simp
    have stg: "stages w ?c0 =
              (Returned, d2\<lparr>endImage := ''output.gif''\<rparr>,
               u1 @ u2 @
               [Stdout (''No imgur Client ID provided. File will be retained locally.''
                        @ [CHR 0x0A]),
                Stdout (if outputMarkdown d2 then ''![](output.gif)'' @ [CHR 0x0A]
                        else ''output.gif'' @ [CHR 0x0A])])"
      using f eq cv up by (simp add: stages_def fmt_Sprintln_def)
    have m: "main w a =
              (Returned, d2\<lparr>endImage := ''output.gif''\<rparr>,
               u1 @ u2 @
               [Stdout (''No imgur Client ID provided. File will be retained locally.''
                        @ [CHR 0x0A]),
                Stdout (if outputMarkdown d2 then ''![](output.gif)'' @ [CHR 0x0A]
                        else ''output.gif'' @ [CHR 0x0A])]
               @ cleanup w (d2\<lparr>endImage := ''output.gif''\<rparr>))"
      using h stg by (simp add: main_def run_def)
    have shape2: "fileToConvert (d2\<lparr>endImage := ''output.gif''\<rparr>)
             = startImage (d2\<lparr>endImage := ''output.gif''\<rparr>)
           \<or> fileToConvert (d2\<lparr>endImage := ''output.gif''\<rparr>) = []
           \<or> (\<exists>ext. fileToConvert (d2\<lparr>endImage := ''output.gif''\<rparr>) = tempFileName @ ext)"
      using shape1 d2 by simp
    have n: "''output.gif'' \<notin> set (filesToRemove (d2\<lparr>endImage := ''output.gif''\<rparr>))"
      using output_in_filesToRemove [OF shape2] bd by simp
    from m o n show "main w a =
              (Returned, d2\<lparr>endImage := ''output.gif''\<rparr>,
               u1 @ u2 @
               [Stdout (''No imgur Client ID provided. File will be retained locally.''
                        @ [CHR 0x0A]),
                Stdout (if outputMarkdown d2 then ''![](output.gif)'' @ [CHR 0x0A]
                        else ''output.gif'' @ [CHR 0x0A])]
               @ cleanup w (d2\<lparr>endImage := ''output.gif''\<rparr>))
            \<and> outputImage d2 = ''output.gif''
            \<and> ''output.gif'' \<notin> set (filesToRemove (d2\<lparr>endImage := ''output.gif''\<rparr>))"
      by blast
  qed
  show ?thesis
    by (rule conjI [OF p1 conjI [OF p2 conjI [OF p3 p4]]])
qed

theorem no_credential_keeps_output_witness:
  "strings_TrimSpace (clientID (parse_flags world_ok flags_local)) = []
   \<and> validate (parse_flags world_ok flags_local) = None
   \<and> fetchFile world_ok (parse_flags world_ok flags_local)
       = (Return None, conv_nocred, [OsStat ''in.mp4''])
   \<and> convert world_ok conv_nocred =
       (None, conv_nocred\<lparr>outputImage := ''output.gif''\<rparr>,
        [CmdRun ''ffmpeg''
           [''-i'', ''in.mp4'', ''-pix_fmt'', ''rgb24'', ''-vf'', ''scale=300:-1'',
            ''-f'', ''gif'', ''output.gif''],
         CmdRun ''gifsicle'' [''--careful'', ''-O3'', ''--batch'', ''output.gif'']])
   \<and> main world_ok flags_local =
       (Returned, conv_nocred\<lparr>outputImage := ''output.gif'', endImage := ''output.gif''\<rparr>,
        [OsStat ''in.mp4'',
         CmdRun ''ffmpeg''
           [''-i'', ''in.mp4'', ''-pix_fmt'', ''rgb24'', ''-vf'', ''scale=300:-1'',
            ''-f'', ''gif'', ''output.gif''],
         CmdRun ''gifsicle'' [''--careful'', ''-O3'', ''--batch'', ''output.gif''],
         Stdout (''No imgur Client ID provided. File will be retained locally.'' @ [CHR 0x0A]),
         Stdout (''output.gif'' @ [CHR 0x0A])])"
proof -
  let ?c0 = "parse_flags world_ok flags_local"
  let ?c2 = "conv_nocred\<lparr>outputImage := ''output.gif''\<rparr>"
  have c0: "?c0 = conv_nocred\<lparr>fileToConvert := []\<rparr>"
    by (simp add: parse_flags_def flags_local_def flags_none_def conv_nocred_def world_ok_def)
  have h0: "strings_TrimSpace (clientID ?c0) = []"
    unfolding c0 by (simp add: conv_nocred_def strings_TrimSpace_def)
  have h1: "validate ?c0 = None"
    unfolding c0
    by (simp add: validate_def conv_nocred_def strings_TrimSpace_def spaceRunes_def)
  have h2: "fetchFile world_ok ?c0 = (Return None, conv_nocred, [OsStat ''in.mp4''])"
    unfolding c0
    by (simp add: fetchFile_def strings_HasPrefix_def conv_nocred_def world_ok_def)
  have h3: "convert world_ok conv_nocred =
       (None, ?c2,
        [CmdRun ''ffmpeg''
           [''-i'', ''in.mp4'', ''-pix_fmt'', ''rgb24'', ''-vf'', ''scale=300:-1'',
            ''-f'', ''gif'', ''output.gif''],
         CmdRun ''gifsicle'' [''--careful'', ''-O3'', ''--batch'', ''output.gif'']])"
    by (simp add: convert_def world_ok_def Let_def conv_nocred_def ffmpeg_args_def
        gifsicle_args_def outputFileName_def)
  have cl: "cleanup world_ok (?c2\<lparr>endImage := ''output.gif''\<rparr>) = []"
    by (simp add: cleanup_def filesToRemove_def conv_nocred_def strings_TrimSpace_def)
  have m: "outputMarkdown ?c2 = False"
    by (simp add: conv_nocred_def)
  note t = conjunct2 [OF conjunct2 [OF conjunct2 [OF no_credential_keeps_output [OF h0]]]]
  from t [rule_format, OF conjI [OF h1 conjI [OF h2 h3]]]
  have "main world_ok flags_local =
       (Returned, ?c2\<lparr>endImage := ''output.gif''\<rparr>,
        [OsStat ''in.mp4''] @
        [CmdRun ''ffmpeg''
           [''-i'', ''in.mp4'', ''-pix_fmt'', ''rgb24'', ''-vf'', ''scale=300:-1'',
            ''-f'', ''gif'', ''output.gif''],
         CmdRun ''gifsicle'' [''--careful'', ''-O3'', ''--batch'', ''output.gif'']] @
        [Stdout (''No imgur Client ID provided. File will be retained locally.'' @ [CHR 0x0A]),
         Stdout (if outputMarkdown ?c2 then ''![](output.gif)'' @ [CHR 0x0A]
                 else ''output.gif'' @ [CHR 0x0A])]
        @ cleanup world_ok (?c2\<lparr>endImage := ''output.gif''\<rparr>))"
    by (rule conjunct1)
  then have "main world_ok flags_local =
       (Returned, ?c2\<lparr>endImage := ''output.gif''\<rparr>,
        [OsStat ''in.mp4'',
         CmdRun ''ffmpeg''
           [''-i'', ''in.mp4'', ''-pix_fmt'', ''rgb24'', ''-vf'', ''scale=300:-1'',
            ''-f'', ''gif'', ''output.gif''],
         CmdRun ''gifsicle'' [''--careful'', ''-O3'', ''--batch'', ''output.gif''],
         Stdout (''No imgur Client ID provided. File will be retained locally.'' @ [CHR 0x0A]),
         Stdout (''output.gif'' @ [CHR 0x0A])])"
    unfolding cl m by simp
  with h0 h1 h2 h3 show ?thesis by simp
qed

subsection \<open>Transcoder failure\<close>

text \<open>
  Claim C5. When the transcoder command returns an error (a non-zero exit is one), the
  stage fails with an error whose message is the process error, a colon and the captured
  standard error stream; the run prints it and the only events after the \<open>ffmpeg\<close>
  command are that line and those of \<open>cleanup\<close>, which are file removals and warnings:
  the optimizer is not run and nothing is uploaded.
\<close>

theorem transcoder_failure_aborts:
  assumes "validate c = None"
    and "fetchFile w c = (Return None, c1, t1)"
    and "cmd_Run w ''ffmpeg'' (ffmpeg_args (c1\<lparr>outputImage := ''output.gif''\<rparr>)) = (Some err, diag)"
  shows "convert w c1 =
           (Some (errors_New (Error err @ '': '' @ diag)), c1\<lparr>outputImage := ''output.gif''\<rparr>,
            [CmdRun ''ffmpeg'' (ffmpeg_args (c1\<lparr>outputImage := ''output.gif''\<rparr>))])
       \<and> run w c =
           (Returned, c1\<lparr>outputImage := ''output.gif''\<rparr>,
            t1 @ [CmdRun ''ffmpeg'' (ffmpeg_args (c1\<lparr>outputImage := ''output.gif''\<rparr>)),
                  Stdout (Error err @ '': '' @ diag @ [CHR 0x0A])]
               @ cleanup w (c1\<lparr>outputImage := ''output.gif''\<rparr>))
       \<and> (\<forall>e \<in> set (cleanup w (c1\<lparr>outputImage := ''output.gif''\<rparr>)).
             (\<exists>f. e = OsRemove f) \<or> (\<exists>s. e = Stdout s))"
proof -
  have conv: "convert w c1 =
           (Some (errors_New (Error err @ '': '' @ diag)), c1\<lparr>outputImage := ''output.gif''\<rparr>,
            [CmdRun ''ffmpeg'' (ffmpeg_args (c1\<lparr>outputImage := ''output.gif''\<rparr>))])"
    using assms(3) by (simp add: convert_def Let_def outputFileName_def fmt_Sprint_def)
  have "stages w c =
           (Returned, c1\<lparr>outputImage := ''output.gif''\<rparr>,
            t1 @ [CmdRun ''ffmpeg'' (ffmpeg_args (c1\<lparr>outputImage := ''output.gif''\<rparr>)),
                  Stdout (Error err @ '': '' @ diag @ [CHR 0x0A])])"
    using assms(2) conv by (simp add: stages_def fmt_Sprintln_def)
  then have "run w c =
           (Returned, c1\<lparr>outputImage := ''output.gif''\<rparr>,
            t1 @ [CmdRun ''ffmpeg'' (ffmpeg_args (c1\<lparr>outputImage := ''output.gif''\<rparr>)),
                  Stdout (Error err @ '': '' @ diag @ [CHR 0x0A])]
               @ cleanup w (c1\<lparr>outputImage := ''output.gif''\<rparr>))"
    using assms(1) by (simp add: run_def)
  with conv show ?thesis
    using cleanup_events by blast
qed

theorem transcoder_failure_aborts_witness:
  "validate conv_local = None
   \<and> fetchFile world_ffmpeg_fails conv_local = (Return None, conv_local, [OsStat ''in.mp4''])
   \<and> cmd_Run world_ffmpeg_fails ''ffmpeg'' (ffmpeg_args (conv_local\<lparr>outputImage := ''output.gif''\<rparr>))
       = (Some (errors_New ''exit status 1''), ''Invalid data'')
   \<and> run world_ffmpeg_fails conv_local =
       (Returned, conv_local\<lparr>outputImage := ''output.gif''\<rparr>,
        [OsStat ''in.mp4'',
         CmdRun ''ffmpeg''
           [''-i'', ''in.mp4'', ''-pix_fmt'', ''rgb24'', ''-vf'', ''scale=300:-1'',
            ''-f'', ''gif'', ''output.gif''],
         Stdout (''exit status 1: Invalid data'' @ [CHR 0x0A]),
         OsRemove ''output.gif''])"
proof -
  have h1: "validate conv_local = None"
    by (simp add: validate_def conv_local_def strings_TrimSpace_def spaceRunes_def)
  have h2: "fetchFile world_ffmpeg_fails conv_local = (Return None, conv_local, [OsStat ''in.mp4''])"
    by (simp add: fetchFile_def strings_HasPrefix_def conv_local_def world_ffmpeg_fails_def
        world_ok_def)
  have h3: "cmd_Run world_ffmpeg_fails ''ffmpeg''
       (ffmpeg_args (conv_local\<lparr>outputImage := ''output.gif''\<rparr>))
       = (Some (errors_New ''exit status 1''), ''Invalid data'')"
    by (simp add: world_ffmpeg_fails_def)
  have cl: "cleanup world_ffmpeg_fails (conv_local\<lparr>outputImage := ''output.gif''\<rparr>)
      = [OsRemove ''output.gif'']"
    by (simp add: cleanup_def filesToRemove_def conv_local_def strings_TrimSpace_def
        spaceRunes_def world_ffmpeg_fails_def world_ok_def)
  show ?thesis
    using h1 h2 h3 transcoder_failure_aborts [OF h1 h2 h3] cl
    by (simp add: ffmpeg_args_def conv_local_def)
qed

subsection \<open>Blank input\<close>

text \<open>
  Claim C6. When the input reference is empty or only white space, the run prints the
  validation message and does nothing else: the whole trace is that one line on standard
  output, so there is no network call, no external process, no file created or removed,
  and \<open>cleanup\<close>, which is deferred only after the validation, does not run. The
  converter is left as the flags set it.
\<close>

theorem blank_input_only_reports:
  assumes "strings_TrimSpace (startImage (parse_flags w a)) = []"
  shows "main w a =
    (Returned, parse_flags w a,
     [Stdout (''You must provide an input URL or path'' @ [CHR 0x0A])])"
  using assms by (simp add: main_def run_def validate_def fmt_Sprintln_def)

theorem blank_input_only_reports_witness:
  "strings_TrimSpace (startImage (parse_flags world_ok (flags_none\<lparr>flag_i := Some [CHR 0x20, CHR 0x09]\<rparr>))) = []
   \<and> main world_ok (flags_none\<lparr>flag_i := Some [CHR 0x20, CHR 0x09]\<rparr>) =
    (Returned, parse_flags world_ok (flags_none\<lparr>flag_i := Some [CHR 0x20, CHR 0x09]\<rparr>),
     [Stdout (''You must provide an input URL or path'' @ [CHR 0x0A])])"
proof -
  have h: "strings_TrimSpace (startImage (parse_flags world_ok (flags_none\<lparr>flag_i := Some [CHR 0x20, CHR 0x09]\<rparr>))) = []"
    by (simp add: parse_flags_def flags_none_def strings_TrimSpace_def spaceRunes_def)
  show ?thesis using h blank_input_only_reports [OF h] by simp
qed

subsection \<open>The two external commands\<close>

text \<open>
  Claim C7. Whenever the transcoder stage succeeds, it ran exactly two commands:
  \<open>ffmpeg\<close> on the resolved input with pixel format \<open>rgb24\<close>, the filter
  \<open>scale=<width>:-1\<close> built from the target width, the format forced to \<open>gif\<close> and the
  fixed output file \<open>output.gif\<close>; then \<open>gifsicle\<close> with \<open>--careful\<close>, \<open>-O3\<close> and
  \<open>--batch\<close> (in place) on that same \<open>output.gif\<close>.
\<close>

theorem convert_commands:
  assumes "convert w c = (None, c', t)"
  shows "t = [CmdRun ''ffmpeg''
                [''-i'', fileToConvert c, ''-pix_fmt'', ''rgb24'',
                 ''-vf'', ''scale='' @ imageWidth c @ '':-1'', ''-f'', ''gif'', ''output.gif''],
              CmdRun ''gifsicle'' [''--careful'', ''-O3'', ''--batch'', ''output.gif'']]
         \<and> c' = c\<lparr>outputImage := ''output.gif''\<rparr>"
  using assms
  by (auto simp: convert_def Let_def ffmpeg_args_def gifsicle_args_def outputFileName_def
           split: prod.splits option.splits)

theorem convert_commands_witness:
  "convert world_ok conv_local =
     (None, conv_local\<lparr>outputImage := ''output.gif''\<rparr>,
      [CmdRun ''ffmpeg''
         [''-i'', ''in.mp4'', ''-pix_fmt'', ''rgb24'', ''-vf'', ''scale=300:-1'',
          ''-f'', ''gif'', ''output.gif''],
       CmdRun ''gifsicle'' [''--careful'', ''-O3'', ''--batch'', ''output.gif'']])
   \<and> [CmdRun ''ffmpeg''
         [''-i'', ''in.mp4'', ''-pix_fmt'', ''rgb24'', ''-vf'', ''scale=300:-1'',
          ''-f'', ''gif'', ''output.gif''],
       CmdRun ''gifsicle'' [''--careful'', ''-O3'', ''--batch'', ''output.gif'']] =
      [CmdRun ''ffmpeg''
         [''-i'', fileToConvert conv_local, ''-pix_fmt'', ''rgb24'',
          ''-vf'', ''scale='' @ imageWidth conv_local @ '':-1'', ''-f'', ''gif'', ''output.gif''],
       CmdRun ''gifsicle'' [''--careful'', ''-O3'', ''--batch'', ''output.gif'']]"
proof -
  have h: "convert world_ok conv_local =
     (None, conv_local\<lparr>outputImage := ''output.gif''\<rparr>,
      [CmdRun ''ffmpeg''
         [''-i'', ''in.mp4'', ''-pix_fmt'', ''rgb24'', ''-vf'', ''scale=300:-1'',
          ''-f'', ''gif'', ''output.gif''],
       CmdRun ''gifsicle'' [''--careful'', ''-O3'', ''--batch'', ''output.gif'']])"
    by (simp add: convert_def world_ok_def Let_def conv_local_def ffmpeg_args_def
        gifsicle_args_def outputFileName_def)
  from convert_commands [OF h] h show ?thesis by simp
qed

subsection \<open>Remote or local\<close>

text \<open>
  Claim C8. The input resolver takes the download path exactly when the reference
  begins with the four characters \<open>http\<close>, whatever follows them: then \<open>fetchFile\<close> is
  \<open>fetchRemote\<close>, which never asks whether a local file exists. Any other reference,
  \<open>ftp://...\<close> included, is a local path: it becomes the resolved input path, and the
  only thing done is the existence check on it.
\<close>

theorem remote_iff_http_prefix:
  "(prefix ''http'' (startImage c) \<longrightarrow>
      fetchFile w c = fetchRemote w c \<and> (\<forall>p. OsStat p \<notin> set (snd (snd (fetchFile w c)))))
   \<and> (\<not> prefix ''http'' (startImage c) \<longrightarrow>
      fetchFile w c =
        (Return (if os_Stat_IsNotExist w (startImage c)
                 then Some (errors_New ''Input file does not exist'') else None),
         c\<lparr>fileToConvert := startImage c\<rparr>, [OsStat (startImage c)]))"
  by (simp add: fetchFile_def strings_HasPrefix_def fetchRemote_no_stat Let_def)

theorem remote_iff_http_prefix_witness:
  "prefix ''http'' (startImage (conv_start ''httpfile.mp4''))
   \<and> fetchFile world_ok (conv_start ''httpfile.mp4'') =
       (Return (Some (errors_New ''unsupported protocol scheme'')),
        (conv_start ''httpfile.mp4'')\<lparr>fileToConvert := ''temp_file_to_convert.mp4''\<rparr>,
        [OsCreate ''temp_file_to_convert.mp4'',
         ClientDo \<lparr>Method = ''GET'', RawURL = ''httpfile.mp4'', Header = [], ReqBody = NoBody\<rparr>])
   \<and> \<not> prefix ''http'' (startImage (conv_start ''ftp://host/a.mp4''))
   \<and> fetchFile world_ok (conv_start ''ftp://host/a.mp4'') =
       (Return None, (conv_start ''ftp://host/a.mp4'')\<lparr>fileToConvert := ''ftp://host/a.mp4''\<rparr>,
        [OsStat ''ftp://host/a.mp4''])"
proof -
  have r: "fetchRemote world_ok (conv_start ''httpfile.mp4'') =
       (Return (Some (errors_New ''unsupported protocol scheme'')),
        (conv_start ''httpfile.mp4'')\<lparr>fileToConvert := ''temp_file_to_convert.mp4''\<rparr>,
        [OsCreate ''temp_file_to_convert.mp4'',
         ClientDo \<lparr>Method = ''GET'', RawURL = ''httpfile.mp4'', Header = [], ReqBody = NoBody\<rparr>])"
    by (simp add: fetchRemote_def resolve_def conv_start_def world_ok_def path_Ext_def
        tempFileName_def http_NewRequest_def Let_def)
  have h1: "prefix ''http'' (startImage (conv_start ''httpfile.mp4''))"
    by (simp add: conv_start_def)
  have h2: "\<not> prefix ''http'' (startImage (conv_start ''ftp://host/a.mp4''))"
    by (simp add: conv_start_def)
  have s: "\<not> os_Stat_IsNotExist world_ok p" for p
    by (simp add: world_ok_def)
  show ?thesis
    using remote_iff_http_prefix [of "conv_start ''httpfile.mp4''" world_ok]
      remote_iff_http_prefix [of "conv_start ''ftp://host/a.mp4''" world_ok] h1 h2 r s
    by (simp add: conv_start_def)
qed

subsection \<open>Errors of the remote fetch\<close>

text \<open>
  Claim C9. In the remote fetch the errors of creating the temporary file and of
  building the request are not looked at. An error that \<open>fetchRemote\<close> returns is the
  error of parsing the reference, of the HTTP round trip or of copying the response
  body. Once the reference has parsed and the request has been built, the round trip is
  made right after the attempt to create the file, whether that attempt failed or not,
  and the result is the error of the round trip or else of the copy. When the request
  could not be built, nothing is returned: the nil request makes \<open>client.Do\<close> panic.
\<close>

theorem fetchRemote_error_sources:
  "(fst (fetchRemote w c) = Return (Some e) \<longrightarrow>
      url_Parse w (startImage c) = Inl e
      \<or> (\<exists>req. ClientDo req \<in> set (snd (snd (fetchRemote w c))) \<and> client_Do w req = Inl e)
      \<or> (\<exists>dst src. IoCopy dst src \<in> set (snd (snd (fetchRemote w c)))
            \<and> io_Copy w dst src = Some e))
   \<and> (\<forall>u req. url_Parse w (startImage c) = Inr u
         \<and> http_NewRequest w ''GET'' (startImage (resolve c u)) NoBody = Inr req
        \<longrightarrow> take 2 (snd (snd (fetchRemote w c))) =
              [OsCreate (fileToConvert (resolve c u)), ClientDo req]
          \<and> fst (fetchRemote w c) =
              (case client_Do w req of
                 Inl err \<Rightarrow> Return (Some err)
               | Inr resp \<Rightarrow>
                   Return (io_Copy w
                     (FileStream (case os_Create w (fileToConvert (resolve c u)) of
                                    None \<Rightarrow> Some (fileToConvert (resolve c u))
                                  | Some _ \<Rightarrow> None))
                     (BodyStream resp))))
   \<and> (\<forall>u err. url_Parse w (startImage c) = Inr u
         \<and> http_NewRequest w ''GET'' (startImage (resolve c u)) NoBody = Inl err
        \<longrightarrow> fst (fetchRemote w c) = Panic nil_dereference)"
proof -
  have a: "fst (fetchRemote w c) = Return (Some e) \<longrightarrow>
      url_Parse w (startImage c) = Inl e
      \<or> (\<exists>req. ClientDo req \<in> set (snd (snd (fetchRemote w c))) \<and> client_Do w req = Inl e)
      \<or> (\<exists>dst src. IoCopy dst src \<in> set (snd (snd (fetchRemote w c)))
            \<and> io_Copy w dst src = Some e)"
  proof (cases "url_Parse w (startImage c)")
    case (Inl err)
    then show ?thesis
      by (simp add: fetchRemote_def)
  next
    case (Inr u)
    then show ?thesis
      by (auto simp: fetchRemote_parsed split: sum.splits)
  qed
  have b: "\<forall>u req. url_Parse w (startImage c) = Inr u
         \<and> http_NewRequest w ''GET'' (startImage (resolve c u)) NoBody = Inr req
        \<longrightarrow> take 2 (snd (snd (fetchRemote w c))) =
              [OsCreate (fileToConvert (resolve c u)), ClientDo req]
          \<and> fst (fetchRemote w c) =
              (case client_Do w req of
                 Inl err \<Rightarrow> Return (Some err)
               | Inr resp \<Rightarrow>
                   Return (io_Copy w
                     (FileStream (case os_Create w (fileToConvert (resolve c u)) of
                                    None \<Rightarrow> Some (fileToConvert (resolve c u))
                                  | Some _ \<Rightarrow> None))
                     (BodyStream resp)))"
    by (auto simp: fetchRemote_parsed split: sum.splits)
  have c: "\<forall>u err. url_Parse w (startImage c) = Inr u
         \<and> http_NewRequest w ''GET'' (startImage (resolve c u)) NoBody = Inl err
        \<longrightarrow> fst (fetchRemote w c) = Panic nil_dereference"
    by (auto simp: fetchRemote_parsed split: sum.splits)
  show ?thesis
    by (rule conjI [OF a conjI [OF b c]])
qed

theorem fetchRemote_error_sources_witness:
  "url_Parse world_create_fails (startImage (conv_start ''http://i.imgur.com/a.mp4''))
     = Inr \<lparr>Path = ''/a.mp4''\<rparr>
   \<and> os_Create world_create_fails ''temp_file_to_convert.mp4''
     = Some (errors_New ''permission denied'')
   \<and> take 2 (snd (snd (fetchRemote world_create_fails (conv_start ''http://i.imgur.com/a.mp4'')))) =
       [OsCreate ''temp_file_to_convert.mp4'',
        ClientDo \<lparr>Method = ''GET'', RawURL = ''http://i.imgur.com/a.mp4'', Header = [],
                  ReqBody = NoBody\<rparr>]
   \<and> fst (fetchRemote world_create_fails (conv_start ''http://i.imgur.com/a.mp4'')) = Return None"
proof -
  let ?c = "conv_start ''http://i.imgur.com/a.mp4''"
  let ?u = "\<lparr>Path = ''/a.mp4''\<rparr>"
  let ?req = "\<lparr>Method = ''GET'', RawURL = ''http://i.imgur.com/a.mp4'', Header = [],
               ReqBody = NoBody\<rparr>"
  have p: "url_Parse world_create_fails (startImage ?c) = Inr ?u"
    by (simp add: world_create_fails_def world_ok_def conv_start_def)
  have r: "resolve ?c ?u = ?c\<lparr>fileToConvert := ''temp_file_to_convert.mp4''\<rparr>"
    by (simp add: resolve_def conv_start_def path_Ext_def tempFileName_def Let_def)
  have n: "http_NewRequest world_create_fails ''GET'' (startImage (resolve ?c ?u)) NoBody
      = Inr ?req"
    unfolding r by (simp add: http_NewRequest_def world_create_fails_def world_ok_def
        conv_start_def)
  have d: "client_Do world_create_fails ?req = Inr \<lparr>Body = ''video''\<rparr>"
    by (simp add: world_create_fails_def world_ok_def)
  have k: "os_Create world_create_fails ''temp_file_to_convert.mp4''
     = Some (errors_New ''permission denied'')"
    by (simp add: world_create_fails_def)
  have i: "io_Copy world_create_fails dst src = None" for dst src
    by (simp add: world_create_fails_def world_ok_def)
  have f: "fileToConvert (resolve ?c ?u) = ''temp_file_to_convert.mp4''"
    unfolding r by simp
  from conjunct1 [OF conjunct2 [OF fetchRemote_error_sources [of world_create_fails ?c]]]
  have "take 2 (snd (snd (fetchRemote world_create_fails ?c))) =
              [OsCreate (fileToConvert (resolve ?c ?u)), ClientDo ?req]
          \<and> fst (fetchRemote world_create_fails ?c) =
              (case client_Do world_create_fails ?req of
                 Inl err \<Rightarrow> Return (Some err)
               | Inr resp \<Rightarrow>
                   Return (io_Copy world_create_fails
                     (FileStream (case os_Create world_create_fails (fileToConvert (resolve ?c ?u)) of
                                    None \<Rightarrow> Some (fileToConvert (resolve ?c ?u))
                                  | Some _ \<Rightarrow> None))
                     (BodyStream resp)))"
    using p n by blast
  then show ?thesis
    unfolding f d using p k by (simp add: i)
qed

subsection \<open>The removal warning\<close>

text \<open>
  Claim C10. \<open>cleanup\<close> tries each gathered file once, and after each removal that
  fails it prints one warning; every warning it prints names \<open>fileToConvert\<close>, the
  resolved input path, whichever file the failed removal was about.
\<close>

theorem cleanup_warning_names_input:
  "cleanup w c =
     (if keepFiles c then []
      else concat (map (\<lambda>f. OsRemove f #
             (if os_Remove w f = None then []
              else [Stdout (''Could not remove file:  '' @ fileToConvert c @ [CHR 0x0A])]))
             (filesToRemove c)))
   \<and> (\<forall>s. Stdout s \<in> set (cleanup w c) \<longrightarrow>
          s = ''Could not remove file:  '' @ fileToConvert c @ [CHR 0x0A])"
proof (intro conjI allI impI)
  show "cleanup w c =
     (if keepFiles c then []
      else concat (map (\<lambda>f. OsRemove f #
             (if os_Remove w f = None then []
              else [Stdout (''Could not remove file:  '' @ fileToConvert c @ [CHR 0x0A])]))
             (filesToRemove c)))"
    unfolding cleanup_def remove_loop_concat by (rule refl)
next
  fix s
  assume "Stdout s \<in> set (cleanup w c)"
  then have "Stdout s \<in> set (remove_loop w c (filesToRemove c))"
    by (cases "keepFiles c") (simp_all add: cleanup_def)
  then show "s = ''Could not remove file:  '' @ fileToConvert c @ [CHR 0x0A]"
    by (rule remove_loop_stdout)
qed

theorem cleanup_warning_names_input_witness:
  "\<not> keepFiles conv_remote
   \<and> os_Remove world_keeps_output ''output.gif'' = Some (errors_New ''permission denied'')
   \<and> cleanup world_keeps_output conv_remote =
       [OsRemove ''temp_file_to_convert.mp4'', OsRemove ''output.gif'',
        Stdout (''Could not remove file:  temp_file_to_convert.mp4'' @ [CHR 0x0A])]"
proof -
  have f: "filesToRemove conv_remote = [''temp_file_to_convert.mp4'', ''output.gif'']"
    by (simp add: filesToRemove_def conv_remote_def strings_TrimSpace_def spaceRunes_def)
  have k: "keepFiles conv_remote = False"
    "fileToConvert conv_remote = ''temp_file_to_convert.mp4''"
    by (simp_all add: conv_remote_def)
  have r: "os_Remove world_keeps_output ''output.gif'' = Some (errors_New ''permission denied'')"
    "os_Remove world_keeps_output ''temp_file_to_convert.mp4'' = None"
    by (simp_all add: world_keeps_output_def world_ok_def)
  have "cleanup world_keeps_output conv_remote =
       [OsRemove ''temp_file_to_convert.mp4'', OsRemove ''output.gif'',
        Stdout (''Could not remove file:  temp_file_to_convert.mp4'' @ [CHR 0x0A])]"
    unfolding conjunct1 [OF cleanup_warning_names_input [of world_keeps_output conv_remote]]
    by (simp add: f k r)
  with k r show ?thesis by simp
qed

end
